theory Spec2Isabelle
  imports Main
begin

section \<open>JavaScript values as the extension handles them\<close>

text \<open>
  The three scripts of the extension (popup.js, content_script.js and the background
  service worker) exchange JSON documents with the local server and plain messages with
  each other. A parsed JSON document is a \<open>jsval\<close>; \<open>JUndefined\<close> is what reading a
  missing property gives. Numbers are integers here (no document of this protocol carries
  a fraction); a string is the list of its code units, each below 256.
\<close>

datatype jsval =
    JUndefined
  | JNull
  | JBool bool
  | JNum int
  | JStr string
  | JArr "jsval list"
  | JObj "(string \<times> jsval) list"

type_synonym props = "(string \<times> jsval) list"

datatype js_error =
    TypeError            \<comment> \<open>property read on null, or calling a method that is not there\<close>
  | LocalConfigUnreadable \<comment> \<open>fetch of config_ext.json rejected, or its body is not JSON\<close>

text \<open>JavaScript truthiness: what \<open>if (v)\<close>, \<open>v || w\<close> and \<open>!v\<close> test.\<close>

fun truthy :: "jsval \<Rightarrow> bool" where
  "truthy JUndefined = False"
| "truthy JNull = False"
| "truthy (JBool b) = b"
| "truthy (JNum n) = (n \<noteq> 0)"
| "truthy (JStr s) = (s \<noteq> [])"
| "truthy (JArr xs) = True"
| "truthy (JObj ps) = True"

definition js_or :: "jsval \<Rightarrow> jsval \<Rightarrow> jsval" where
  "js_or a b = (if truthy a then a else b)"

text \<open>\<open>o.k\<close> on an object whose own properties are \<open>ps\<close>.\<close>

definition own_prop :: "props \<Rightarrow> string \<Rightarrow> jsval" where
  "own_prop ps k = (case map_of ps k of None \<Rightarrow> JUndefined | Some v \<Rightarrow> v)"

text \<open>
  \<open>v.k\<close> on any value, for the property names this code reads (\<open>server_url\<close>,
  \<open>token\<close>, \<open>detail\<close>, \<open>message\<close>): none of them is on a prototype, so a primitive or
  an array gives \<open>undefined\<close>, and \<open>null\<close> raises.
\<close>

fun get_prop :: "jsval \<Rightarrow> string \<Rightarrow> js_error + jsval" where
  "get_prop JUndefined k = Inl TypeError"
| "get_prop JNull k = Inl TypeError"
| "get_prop (JObj ps) k = Inr (own_prop ps k)"
| "get_prop v k = Inr JUndefined"

text \<open>\<open>o.k = v\<close> on an object: the property is replaced in place, or added at the end.\<close>

fun set_prop :: "props \<Rightarrow> string \<Rightarrow> jsval \<Rightarrow> props" where
  "set_prop [] k v = [(k, v)]"
| "set_prop ((k', v') # ps) k v =
     (if k' = k then (k, v) # ps else (k', v') # set_prop ps k v)"

text \<open>\<open>s.replace(/\/+$/, "")\<close>: the run of slashes at the end of the string is removed.\<close>

definition strip_trailing_slashes :: "string \<Rightarrow> string" where
  "strip_trailing_slashes s = rev (dropWhile (\<lambda>c. c = CHR ''/'') (rev s))"

text \<open>\<open>/^https?:\/\//.test(s)\<close>.\<close>

definition strict_url :: "string \<Rightarrow> bool" where
  "strict_url s = (take 7 s = ''http://'' \<or> take 8 s = ''https://'')"

text \<open>\<open>s.toUpperCase()\<close>, exact on ASCII.\<close>

definition upper_char :: "char \<Rightarrow> char" where
  "upper_char c =
     (case map_of (zip ''abcdefghijklmnopqrstuvwxyz'' ''ABCDEFGHIJKLMNOPQRSTUVWXYZ'') c of
        Some u \<Rightarrow> u
      | None \<Rightarrow> c)"

definition toUpperCase :: "string \<Rightarrow> string" where
  "toUpperCase s = map upper_char s"

text \<open>
  String conversion, as a template literal does it; for a number, its decimal digits
  (what JavaScript prints for an integer below \<open>10^21\<close>).
\<close>

fun string_of_nat :: "nat \<Rightarrow> string" where
  "string_of_nat n =
     (if n < 10 then [''0123456789'' ! n]
      else string_of_nat (n div 10) @ [''0123456789'' ! (n mod 10)])"

definition string_of_int :: "int \<Rightarrow> string" where
  "string_of_int i = (if i < 0 then CHR ''-'' # string_of_nat (nat (- i)) else string_of_nat (nat i))"

fun join_comma :: "string list \<Rightarrow> string" where
  "join_comma [] = []"
| "join_comma [s] = s"
| "join_comma (s # t # ss) = s @ '','' @ join_comma (t # ss)"

fun to_string :: "jsval \<Rightarrow> string" where
  "to_string JUndefined = ''undefined''"
| "to_string JNull = ''null''"
| "to_string (JBool b) = (if b then ''true'' else ''false'')"
| "to_string (JNum n) = string_of_int n"
| "to_string (JStr s) = s"
| "to_string (JArr xs) =
     join_comma (map (\<lambda>x. if x = JNull \<or> x = JUndefined then [] else to_string x) xs)"
| "to_string (JObj ps) = ''[object Object]''"

section \<open>The network and the browser, as the scripts see them\<close>

record request =
  req_method :: string
  req_url :: string
  req_headers :: "(string \<times> string) list"
  req_body :: "jsval option"   \<comment> \<open>the value given to \<open>JSON.stringify\<close>\<close>

record response =
  status :: nat
  statusText :: string
  json_body :: "jsval option"  \<comment> \<open>\<open>None\<close>: \<open>res.json()\<close> rejects\<close>

datatype fetch_result = Rejects | Responds response

definition ok :: "response \<Rightarrow> bool" where
  "ok r = (200 \<le> status r \<and> status r \<le> 299)"

text \<open>
  What a context cannot see in its own source is a parameter: the packaged
  config_ext.json (a JSON object, or unreadable), the answer of the server to each
  request, the URL under which the package is served, and whether the notifications
  API is there.
\<close>

record env =
  ext_origin :: string
  bundled :: "props option"
  fetch :: "request \<Rightarrow> fetch_result"
  notifications_api :: bool

definition getURL :: "env \<Rightarrow> string \<Rightarrow> string" where
  "getURL e path = ext_origin e @ ''/'' @ path"

definition GET :: "string \<Rightarrow> request" where
  "GET u = \<lparr>req_method = ''GET'', req_url = u, req_headers = [], req_body = None\<rparr>"

section \<open>Configuration Resolver\<close>

text \<open>
  One context: its cached configuration (\<open>CFG\<close> in the service worker, \<open>CONFIG\<close> in the
  popup), every \<open>fetch\<close> it has issued, oldest first, and every notification it has
  created.
\<close>

record ctx =
  CFG :: "props option"
  requests :: "request list"
  notifications :: "(string \<times> jsval) list"

definition issue :: "request \<Rightarrow> ctx \<Rightarrow> ctx" where
  "issue rq st = st\<lparr>requests := requests st @ [rq]\<rparr>"

text \<open>\<open>(cfg.server_url || "").replace(/\/+$/, "")\<close>: a truthy value that is no string has no \<open>replace\<close>.\<close>

definition base_of :: "props \<Rightarrow> js_error + string" where
  "base_of cfg =
     (case js_or (own_prop cfg ''server_url'') (JStr []) of
        JStr s \<Rightarrow> Inr (strip_trailing_slashes s)
      | _ \<Rightarrow> Inl TypeError)"

text \<open>
  \<open>if (srv.server_url) CFG.server_url = srv.server_url; if (srv.token) CFG.token = srv.token;\<close>
  The two reads of \<open>srv\<close> raise together or not at all (only \<open>null\<close> raises), so an
  exception never leaves a half-applied override behind.
\<close>

definition apply_override :: "props \<Rightarrow> jsval \<Rightarrow> js_error + props" where
  "apply_override cfg srv =
     (case get_prop srv ''server_url'' of
        Inl e \<Rightarrow> Inl e
      | Inr u \<Rightarrow>
          (let cfg1 = (if truthy u then set_prop cfg ''server_url'' u else cfg) in
           case get_prop srv ''token'' of
             Inl e \<Rightarrow> Inl e
           | Inr t \<Rightarrow> Inr (if truthy t then set_prop cfg1 ''token'' t else cfg1)))"

text \<open>
  The body of the \<open>try\<close> block of \<open>loadConfig\<close>, from the bundled object \<open>cfg\<close>: the
  configuration that stands afterwards, and the override request when one was issued.
  Every exception inside the block is caught, and \<open>cfg\<close> stands as it is at that point.
\<close>

definition override_url :: "string \<Rightarrow> string" where
  "override_url base = base @ ''/api/ext/config''"

definition try_override :: "env \<Rightarrow> props \<Rightarrow> props \<times> request list" where
  "try_override e cfg =
     (case base_of cfg of
        Inl _ \<Rightarrow> (cfg, [])
      | Inr base \<Rightarrow>
          (let rq = GET (override_url base) in
           case fetch e rq of
             Rejects \<Rightarrow> (cfg, [rq])
           | Responds res \<Rightarrow>
               if ok res then
                 (case json_body res of
                    None \<Rightarrow> (cfg, [rq])
                  | Some srv \<Rightarrow>
                      (case apply_override cfg srv of
                         Inl _ \<Rightarrow> (cfg, [rq])
                       | Inr cfg' \<Rightarrow> (cfg', [rq])))
               else (cfg, [rq])))"

text \<open>
  \<open>loadConfig\<close>, the same in popup.js and in the service worker (the popup calls
  \<open>fetch(url)\<close>, the worker \<open>fetch(url, {method: "GET"})\<close>: the same request).
\<close>

definition loadConfig :: "env \<Rightarrow> ctx \<Rightarrow> (js_error + props) \<times> ctx" where
  "loadConfig e st =
     (case CFG st of
        Some c \<Rightarrow> (Inr c, st)
      | None \<Rightarrow>
          (let st1 = issue (GET (getURL e ''config_ext.json'')) st in
           case bundled e of
             None \<Rightarrow> (Inl LocalConfigUnreadable, st1)
           | Some c \<Rightarrow>
               (let (c', rqs) = try_override e c in
                (Inr c', st1\<lparr>CFG := Some c', requests := requests st1 @ rqs\<rparr>))))"

section \<open>Submission Client\<close>

text \<open>\<open>v.k\<close> on a truthy value: never raises.\<close>

definition member :: "jsval \<Rightarrow> string \<Rightarrow> jsval" where
  "member v k = (case v of JObj ps \<Rightarrow> own_prop ps k | _ \<Rightarrow> JUndefined)"

record server_info =
  si_base :: string
  si_apiPrefix :: jsval
  si_token :: jsval

definition getServerInfo :: "env \<Rightarrow> ctx \<Rightarrow> (js_error + server_info) \<times> ctx" where
  "getServerInfo e st =
     (case loadConfig e st of
        (Inl err, st1) \<Rightarrow> (Inl err, st1)
      | (Inr cfg, st1) \<Rightarrow>
          (case base_of cfg of
             Inl err \<Rightarrow> (Inl err, st1)
           | Inr base \<Rightarrow>
               (Inr \<lparr>si_base = base,
                     si_apiPrefix = js_or (own_prop cfg ''api_prefix'') (JStr ''/api''),
                     si_token = js_or (own_prop cfg ''token'') (JStr [])\<rparr>, st1)))"

text \<open>\<open>notify\<close>: nothing without the notifications API.\<close>

definition notify :: "env \<Rightarrow> string \<Rightarrow> jsval \<Rightarrow> ctx \<Rightarrow> ctx" where
  "notify e title message st =
     (if \<not> notifications_api e then st
      else st\<lparr>notifications := notifications st @ [(title, message)]\<rparr>)"

text \<open>The fixed texts of the notifications; \<open>CHR 0xF3\<close> is the o with acute accent.\<close>

definition msg_missing_config :: string where
  "msg_missing_config = ''Falta configuraci'' @ [CHR 0xF3] @ ''n de servidor o token.''"

definition msg_queued :: string where
  "msg_queued = ''Descarga en cola desde la extensi'' @ [CHR 0xF3] @ ''n.''"

definition title_connection :: string where
  "title_connection = ''Error de conexi'' @ [CHR 0xF3] @ ''n''"

definition msg_unreachable :: string where
  "msg_unreachable = ''No se pudo contactar con el servidor MVideoDk.''"

text \<open>The POST that \<open>sendDownload\<close> builds.\<close>

definition modeUpper :: "string \<Rightarrow> string" where
  "modeUpper modo = toUpperCase (if modo = [] then ''video'' else modo)"

definition queue_request :: "server_info \<Rightarrow> string \<Rightarrow> string \<Rightarrow> request" where
  "queue_request si url modo =
     \<lparr>req_method = ''POST'',
      req_url = si_base si @ to_string (si_apiPrefix si) @ ''/queue'',
      req_headers = [(''Authorization'', ''Bearer '' @ to_string (si_token si)),
                     (''Content-Type'', ''application/json'')],
      req_body = Some (JObj [(''url'', JStr url), (''source'', JStr ''EXT''),
                             (''mode'', JStr (modeUpper modo))])\<rparr>"

text \<open>
  \<open>(data && (data.detail || data.message)) || res.statusText || "Error HTTP"\<close>, where
  \<open>data\<close> is \<open>null\<close> when the body is not JSON.
\<close>

definition error_message :: "response \<Rightarrow> jsval" where
  "error_message res =
     (let data = (case json_body res of None \<Rightarrow> JNull | Some d \<Rightarrow> d) in
      js_or (js_or (if truthy data then js_or (member data ''detail'') (member data ''message'')
                    else data)
                   (JStr (statusText res)))
            (JStr ''Error HTTP''))"

text \<open>
  \<open>sendDownload\<close> returns nothing on any path (\<open>Inr ()\<close>); it rejects (\<open>Inl\<close>) only
  where \<open>getServerInfo\<close> does, which is outside its \<open>try\<close>.
\<close>

definition sendDownload :: "env \<Rightarrow> string \<Rightarrow> string \<Rightarrow> ctx \<Rightarrow> (js_error + unit) \<times> ctx" where
  "sendDownload e url modo st =
     (case getServerInfo e st of
        (Inl err, st1) \<Rightarrow> (Inl err, st1)
      | (Inr si, st1) \<Rightarrow>
          if si_base si = [] \<or> \<not> truthy (si_token si) then
            (Inr (), notify e ''Error'' (JStr msg_missing_config) st1)
          else
            (let rq = queue_request si url modo; st2 = issue rq st1 in
             case fetch e rq of
               Rejects \<Rightarrow> (Inr (), notify e title_connection (JStr msg_unreachable) st2)
             | Responds res \<Rightarrow>
                 if \<not> ok res then
                   (Inr (), notify e ''Error al enviar URL'' (error_message res) st2)
                 else (Inr (), notify e ''MVideoDk'' (JStr msg_queued) st2)))"

section \<open>Message Router\<close>

record message =
  msg_type :: string
  msg_url :: "string option"
  msg_modo :: "string option"
  msg_fromFloat :: "bool option"
  msg_enabled :: "bool option"

text \<open>\<open>sender.tab && sender.tab.url\<close>: the URL of the sending tab, when there is one.\<close>

record sender =
  tab_url :: "string option"

record reply =
  rp_ok :: bool
  rp_error :: "string option"

definition err_no_url :: string where
  "err_no_url = ''no-url''"

definition err_invalid_url :: string where
  "err_invalid_url = ''URL inv'' @ [CHR 0xE1] @ ''lida''"

text \<open>\<open>msg.url || (sender.tab && sender.tab.url) || ""\<close>\<close>

definition finalUrl :: "message \<Rightarrow> sender \<Rightarrow> string" where
  "finalUrl msg sndr =
     (case msg_url msg of
        Some u \<Rightarrow> if u \<noteq> [] then u else (case tab_url sndr of Some t \<Rightarrow> t | None \<Rightarrow> [])
      | None \<Rightarrow> (case tab_url sndr of Some t \<Rightarrow> t | None \<Rightarrow> []))"

text \<open>\<open>msg.modo || "video"\<close>\<close>

definition modo_or_video :: "message \<Rightarrow> string" where
  "modo_or_video msg = (case msg_modo msg of Some m \<Rightarrow> if m \<noteq> [] then m else ''video'' | None \<Rightarrow> ''video'')"

text \<open>
  The listener of the service worker: the reply passed to \<open>sendResponse\<close> (\<open>None\<close> when
  it is never called) and the worker afterwards.
\<close>

definition onMessage :: "env \<Rightarrow> message \<Rightarrow> sender \<Rightarrow> ctx \<Rightarrow> reply option \<times> ctx" where
  "onMessage e msg sndr st =
     (if msg_type msg = ''DIRECT_DOWNLOAD'' then
        (let fromFloat = (msg_fromFloat msg = Some True);
             u = finalUrl msg sndr in
         if u = [] then (Some \<lparr>rp_ok = False, rp_error = Some err_no_url\<rparr>, st)
         else if \<not> fromFloat \<and> \<not> strict_url u then
           (Some \<lparr>rp_ok = False, rp_error = Some err_invalid_url\<rparr>, st)
         else
           (case sendDownload e u (modo_or_video msg) st of
              (Inl err, st1) \<Rightarrow> (None, st1)
            | (Inr _, st1) \<Rightarrow> (Some \<lparr>rp_ok = True, rp_error = None\<rparr>, st1)))
      else (None, st))"

section \<open>Shared State Store\<close>

text \<open>\<open>chrome.storage.local\<close>: the items by key.\<close>

type_synonym storage = "string \<rightharpoonup> jsval"

definition STORAGE_FLOAT :: string where
  "STORAGE_FLOAT = ''MvideoDk_float_button''"

text \<open>\<open>items[STORAGE_FLOAT] === true\<close>\<close>

definition getFloatEnabled :: "storage \<Rightarrow> bool" where
  "getFloatEnabled items = (items STORAGE_FLOAT = Some (JBool True))"

text \<open>\<open>setStorage({ [STORAGE_FLOAT]: !!enabled })\<close>\<close>

definition setFloatEnabled :: "bool \<Rightarrow> storage \<Rightarrow> storage" where
  "setFloatEnabled enabled items = items(STORAGE_FLOAT \<mapsto> JBool enabled)"

section \<open>Popup Control\<close>

datatype status_text = NoValidUrl | NoActiveUrl | RequestSent | VideoQueued | PlaylistQueued

record popup =
  urlInput :: string                             \<comment> \<open>\<open>urlInput.value\<close>\<close>
  currentMode :: string
  modeSwitch :: string                           \<comment> \<open>\<open>modeSwitch.textContent\<close>\<close>
  downloadBtn_disabled :: bool
  downloadCurrentBtn_disabled :: bool
  downloadPlaylistBtn_disabled :: bool
  tempStatus :: "(status_text \<times> bool) option"   \<comment> \<open>the last \<open>showTempStatus(msg, ok)\<close>\<close>
  popup_floatEnabled :: bool

text \<open>The mode switch: \<open>currentMode === "video" ? "playlist" : "video"\<close>.\<close>

definition modeSwitch_click :: "popup \<Rightarrow> popup" where
  "modeSwitch_click p =
     (let m = (if currentMode p = ''video'' then ''playlist'' else ''video'') in
      p\<lparr>currentMode := m,
        modeSwitch := (if m = ''video'' then ''Modo: Video'' else ''Modo: Playlist'')\<rparr>)"

definition resetAfterSend :: "popup \<Rightarrow> popup" where
  "resetAfterSend p = p\<lparr>urlInput := [], currentMode := ''video'', modeSwitch := ''Modo: Video''\<rparr>"

text \<open>\<open>s.trim()\<close> on code units below 256: the white space of ECMAScript there.\<close>

definition is_space :: "char \<Rightarrow> bool" where
  "is_space c = (c \<in> set [CHR 0x09, CHR 0x0A, CHR 0x0B, CHR 0x0C, CHR 0x0D, CHR 0x20, CHR 0xA0])"

definition trim :: "string \<Rightarrow> string" where
  "trim s = rev (dropWhile is_space (rev (dropWhile is_space s)))"

text \<open>
  \<open>let url = urlInput.value.trim(); if (!url) url = tab?.url || "";\<close> where \<open>tab\<close> is the
  URL of the active tab, when the query gives one.
\<close>

definition input_or_tab :: "popup \<Rightarrow> string option \<Rightarrow> string" where
  "input_or_tab p tab =
     (let url = trim (urlInput p) in
      if url = [] then (case tab of Some t \<Rightarrow> t | None \<Rightarrow> []) else url)"

definition direct_download :: "string \<Rightarrow> string \<Rightarrow> message" where
  "direct_download url modo =
     \<lparr>msg_type = ''DIRECT_DOWNLOAD'', msg_url = Some url, msg_modo = Some modo,
      msg_fromFloat = None, msg_enabled = None\<rparr>"

text \<open>
  The three click handlers. Each sends at most one message; the popup is no tab, so the
  worker sees a sender without \<open>tab\<close>. The callback takes no argument: whatever the
  worker replied (\<open>r\<close>), it re-enables the button, resets and shows its fixed text.
\<close>

definition downloadBtn_done :: "reply option \<Rightarrow> popup \<Rightarrow> popup" where
  "downloadBtn_done r p =
     (resetAfterSend (p\<lparr>downloadBtn_disabled := False\<rparr>))\<lparr>tempStatus := Some (RequestSent, True)\<rparr>"

definition downloadBtn_click :: "env \<Rightarrow> string option \<Rightarrow> popup \<times> ctx \<Rightarrow> popup \<times> ctx" where
  "downloadBtn_click e tab pw =
     (let p = fst pw; url = input_or_tab p tab in
      if url = [] then (p\<lparr>tempStatus := Some (NoValidUrl, False)\<rparr>, snd pw)
      else
        (let p1 = p\<lparr>downloadBtn_disabled := True\<rparr>;
             rw = onMessage e (direct_download url (currentMode p)) \<lparr>tab_url = None\<rparr> (snd pw)
         in (downloadBtn_done (fst rw) p1, snd rw)))"

definition downloadCurrentBtn_done :: "reply option \<Rightarrow> popup \<Rightarrow> popup" where
  "downloadCurrentBtn_done r p =
     (resetAfterSend (p\<lparr>downloadCurrentBtn_disabled := False\<rparr>))\<lparr>tempStatus := Some (VideoQueued, True)\<rparr>"

definition downloadCurrentBtn_click :: "env \<Rightarrow> string option \<Rightarrow> popup \<times> ctx \<Rightarrow> popup \<times> ctx" where
  "downloadCurrentBtn_click e tab pw =
     (let p = fst pw; url = (case tab of Some t \<Rightarrow> t | None \<Rightarrow> []) in
      if url = [] then (p\<lparr>tempStatus := Some (NoActiveUrl, False)\<rparr>, snd pw)
      else
        (let p1 = p\<lparr>downloadCurrentBtn_disabled := True\<rparr>;
             rw = onMessage e (direct_download url ''video'') \<lparr>tab_url = None\<rparr> (snd pw)
         in (downloadCurrentBtn_done (fst rw) p1, snd rw)))"

definition downloadPlaylistBtn_done :: "reply option \<Rightarrow> popup \<Rightarrow> popup" where
  "downloadPlaylistBtn_done r p =
     (resetAfterSend (p\<lparr>downloadPlaylistBtn_disabled := False\<rparr>))\<lparr>tempStatus := Some (PlaylistQueued, True)\<rparr>"

definition downloadPlaylistBtn_click :: "env \<Rightarrow> string option \<Rightarrow> popup \<times> ctx \<Rightarrow> popup \<times> ctx" where
  "downloadPlaylistBtn_click e tab pw =
     (let p = fst pw; url = input_or_tab p tab in
      if url = [] then (p\<lparr>tempStatus := Some (NoValidUrl, False)\<rparr>, snd pw)
      else
        (let p1 = p\<lparr>downloadPlaylistBtn_disabled := True\<rparr>;
             rw = onMessage e (direct_download url ''playlist'') \<lparr>tab_url = None\<rparr> (snd pw)
         in (downloadPlaylistBtn_done (fst rw) p1, snd rw)))"

text \<open>
  The toggle of the floating button: the new flag is stored, then sent to the active tab
  (the message is the third component, when there is a tab to send it to).
\<close>

definition set_float_button :: "bool \<Rightarrow> message" where
  "set_float_button enabled =
     \<lparr>msg_type = ''SET_FLOAT_BUTTON'', msg_url = None, msg_modo = None,
      msg_fromFloat = None, msg_enabled = Some enabled\<rparr>"

definition toggleFloatBtn_click :: "bool \<Rightarrow> popup \<times> storage \<Rightarrow> popup \<times> storage \<times> message option" where
  "toggleFloatBtn_click has_tab ps =
     (let p = (fst ps)\<lparr>popup_floatEnabled := \<not> popup_floatEnabled (fst ps)\<rparr> in
      (p, setFloatEnabled (popup_floatEnabled p) (snd ps),
       if has_tab then Some (set_float_button (popup_floatEnabled p)) else None))"

section \<open>Page Floating Control\<close>

datatype glyph = Arrow | Check | Cross

record float_button =
  display :: string       \<comment> \<open>\<open>btn.style.display\<close>\<close>
  textContent :: glyph

record page =
  btn :: "float_button option"
  floatEnabled :: bool
  currentUrl :: string
  has_body :: bool        \<comment> \<open>\<open>document.body\<close> is there\<close>

definition updateVisibility :: "page \<Rightarrow> page" where
  "updateVisibility pg =
     (case btn pg of
        None \<Rightarrow> pg
      | Some b \<Rightarrow> pg\<lparr>btn := Some (b\<lparr>display := (if floatEnabled pg then ''block'' else ''none'')\<rparr>)\<rparr>)"

definition createButton :: "page \<Rightarrow> page" where
  "createButton pg =
     (if \<not> has_body pg \<or> btn pg \<noteq> None then pg
      else updateVisibility (pg\<lparr>btn := Some \<lparr>display = ''none'', textContent = Arrow\<rparr>\<rparr>))"

definition removeButton :: "page \<Rightarrow> page" where
  "removeButton pg = pg\<lparr>btn := None\<rparr>"

definition initFloatState :: "storage \<Rightarrow> page \<Rightarrow> page" where
  "initFloatState items pg =
     (let pg1 = pg\<lparr>floatEnabled := (items ''MvideoDk_float_button'' = Some (JBool True))\<rparr> in
      if floatEnabled pg1 then createButton pg1 else removeButton pg1)"

definition addOrInit :: "storage \<Rightarrow> page \<Rightarrow> page" where
  "addOrInit items pg = (if \<not> has_body pg then pg else initFloatState items pg)"

text \<open>A page context starting on the document at \<open>href\<close>: the script's initial state, then \<open>addOrInit\<close>.\<close>

definition page_start :: "storage \<Rightarrow> string \<Rightarrow> bool \<Rightarrow> page" where
  "page_start items href body =
     addOrInit items \<lparr>btn = None, floatEnabled = False, currentUrl = href, has_body = body\<rparr>"

text \<open>The message the click handler of the floating button sends.\<close>

definition btn_click :: "page \<Rightarrow> message" where
  "btn_click pg =
     \<lparr>msg_type = ''DIRECT_DOWNLOAD'', msg_url = Some (currentUrl pg), msg_modo = Some ''video'',
      msg_fromFloat = Some True, msg_enabled = None\<rparr>"

text \<open>The callback of that message: \<open>lastError\<close> set (\<open>None\<close>), or the reply.\<close>

definition btn_feedback :: "reply option \<Rightarrow> glyph" where
  "btn_feedback r = (case r of None \<Rightarrow> Cross | Some res \<Rightarrow> if rp_ok res then Check else Cross)"

text \<open>The listener of the content script, for \<open>SET_FLOAT_BUTTON\<close>.\<close>

definition page_onMessage :: "message \<Rightarrow> page \<Rightarrow> page" where
  "page_onMessage msg pg =
     (if msg_type msg = ''SET_FLOAT_BUTTON'' then
        (let pg1 = pg\<lparr>floatEnabled := (msg_enabled msg = Some True)\<rparr> in
         if floatEnabled pg1 then createButton pg1 else removeButton pg1)
      else pg)"

section \<open>Predicates and examples used in the statements\<close>

definition malformed_body :: "jsval option \<Rightarrow> bool" where
  "malformed_body b = (case b of None \<Rightarrow> True | Some (JObj ps) \<Rightarrow> False | Some _ \<Rightarrow> True)"

definition failed_response :: "fetch_result \<Rightarrow> bool" where
  "failed_response fr =
     (case fr of Rejects \<Rightarrow> True | Responds res \<Rightarrow> \<not> ok res \<or> malformed_body (json_body res))"

definition override_fails :: "env \<Rightarrow> props \<Rightarrow> bool" where
  "override_fails e c =
     (case base_of c of Inl _ \<Rightarrow> True | Inr base \<Rightarrow> failed_response (fetch e (GET (override_url base))))"

definition fresh :: ctx where
  "fresh = \<lparr>CFG = None, requests = [], notifications = []\<rparr>"

definition bundled_example :: props where
  "bundled_example =
     [(''server_url'', JStr ''http://127.0.0.1:8000/''), (''api_prefix'', JStr ''/v2''),
      (''token'', JStr ''t0'')]"

definition env_example :: "(request \<Rightarrow> fetch_result) \<Rightarrow> env" where
  "env_example f =
     \<lparr>ext_origin = ''chrome-extension://mvideodk'', bundled = Some bundled_example,
      fetch = f, notifications_api = True\<rparr>"

definition override_scenario :: response where
  "override_scenario =
     \<lparr>status = 200, statusText = ''OK'',
      json_body = Some (JObj [(''server_url'', JStr ''https://x.test''), (''token'', JStr ''abc''),
                              (''api_prefix'', JStr ''/other'')])\<rparr>"

definition issued :: "ctx \<Rightarrow> ctx \<Rightarrow> request list" where
  "issued st st' = drop (length (requests st)) (requests st')"


definition server :: "response \<Rightarrow> request \<Rightarrow> fetch_result" where
  "server r rq =
     (if req_method rq = ''POST'' then Responds r
      else Responds \<lparr>status = 404, statusText = ''Not Found'', json_body = None\<rparr>)"

definition bundled_no_token :: props where
  "bundled_no_token =
     [(''server_url'', JStr ''http://127.0.0.1:8000''), (''api_prefix'', JStr ''/api''),
      (''token'', JStr [])]"

definition mode_of :: "request \<Rightarrow> jsval" where
  "mode_of rq = (case req_body rq of Some b \<Rightarrow> member b ''mode'' | None \<Rightarrow> JUndefined)"

definition rejected_403 :: response where
  "rejected_403 =
     \<lparr>status = 403, statusText = ''Forbidden'',
      json_body = Some (JObj [(''detail'', JStr ''bad token'')])\<rparr>"

definition queue_example :: request where
  "queue_example =
     \<lparr>req_method = ''POST'', req_url = ''http://127.0.0.1:8000/v2/queue'',
      req_headers = [(''Authorization'', ''Bearer t0''), (''Content-Type'', ''application/json'')],
      req_body = Some (JObj [(''url'', JStr ''https://example.org/list''), (''source'', JStr ''EXT''),
                             (''mode'', JStr ''PLAYLIST'')])\<rparr>"

definition accepted_200 :: response where
  "accepted_200 = \<lparr>status = 200, statusText = ''OK'', json_body = Some (JObj [(''ok'', JBool True)])\<rparr>"

definition from_popup :: sender where
  "from_popup = \<lparr>tab_url = None\<rparr>"

definition popup_example :: popup where
  "popup_example =
     \<lparr>urlInput = '' https://example.org/list '', currentMode = ''playlist'',
      modeSwitch = ''Modo: Playlist'', downloadBtn_disabled = False,
      downloadCurrentBtn_disabled = False, downloadPlaylistBtn_disabled = False,
      tempStatus = None, popup_floatEnabled = False\<rparr>"

definition page_example :: page where
  "page_example =
     \<lparr>btn = Some \<lparr>display = ''block'', textContent = Arrow\<rparr>, floatEnabled = True,
      currentUrl = ''https://example.org/watch?v=1'', has_body = True\<rparr>"

definition queue_float_example :: request where
  "queue_float_example =
     \<lparr>req_method = ''POST'', req_url = ''http://127.0.0.1:8000/v2/queue'',
      req_headers = [(''Authorization'', ''Bearer t0''), (''Content-Type'', ''application/json'')],
      req_body = Some (JObj [(''url'', JStr ''https://example.org/watch?v=1''),
                             (''source'', JStr ''EXT''), (''mode'', JStr ''VIDEO'')])\<rparr>"

section \<open>Properties of the model\<close>

subsection \<open>Helper lemmas\<close>

lemma map_of_set_prop: "map_of (set_prop ps k v) = (map_of ps)(k \<mapsto> v)"
  by (induction ps k v rule: set_prop.induct) (auto simp: fun_eq_iff)

lemma own_prop_set_prop:
  "own_prop (set_prop ps k v) k' = (if k' = k then v else own_prop ps k')"
  by (simp add: own_prop_def map_of_set_prop)

lemma apply_override_obj:
  "apply_override cfg (JObj srv) =
     Inr (let u = own_prop srv ''server_url''; t = own_prop srv ''token'';
              cfg1 = (if truthy u then set_prop cfg ''server_url'' u else cfg)
          in if truthy t then set_prop cfg1 ''token'' t else cfg1)"
  by (simp add: apply_override_def Let_def)

lemma apply_override_frame:
  assumes "apply_override cfg srv = Inr cfg'" "k \<noteq> ''server_url''" "k \<noteq> ''token''"
  shows "map_of cfg' k = map_of cfg k"
  using assms
  by (auto simp: apply_override_def Let_def map_of_set_prop split: sum.splits if_splits)

lemma try_override_frame:
  assumes "k \<noteq> ''server_url''" "k \<noteq> ''token''"
  shows "map_of (fst (try_override e cfg)) k = map_of cfg k"
  using assms
  by (auto simp: try_override_def Let_def apply_override_frame
           split: sum.splits fetch_result.splits option.splits)

lemma try_override_requests:
  "snd (try_override e cfg) =
     (case base_of cfg of Inl _ \<Rightarrow> [] | Inr base \<Rightarrow> [GET (override_url base)])"
  by (auto simp: try_override_def Let_def split: sum.splits fetch_result.splits option.splits)

lemma loadConfig_cached: "CFG st = Some c \<Longrightarrow> loadConfig e st = (Inr c, st)"
  by (simp add: loadConfig_def)

lemma loadConfig_fresh:
  assumes "CFG st = None" "bundled e = Some c"
  shows "loadConfig e st =
     (Inr (fst (try_override e c)),
      st\<lparr>CFG := Some (fst (try_override e c)),
         requests := requests st @ GET (getURL e ''config_ext.json'') # snd (try_override e c)\<rparr>)"
  using assms by (simp add: loadConfig_def issue_def Let_def split: prod.splits)

lemma loadConfig_unreadable:
  assumes "CFG st = None" "bundled e = None"
  shows "loadConfig e st = (Inl LocalConfigUnreadable, issue (GET (getURL e ''config_ext.json'')) st)"
  using assms by (simp add: loadConfig_def Let_def)

lemma apply_override_non_object:
  "malformed_body (Some srv) \<Longrightarrow> apply_override cfg srv = Inl TypeError \<or> apply_override cfg srv = Inr cfg"
  by (cases srv) (auto simp: malformed_body_def apply_override_def)

lemma try_override_fails:
  assumes "override_fails e c"
  shows "fst (try_override e c) = c"
proof (cases "base_of c")
  case (Inl a)
  then show ?thesis by (simp add: try_override_def)
next
  case (Inr base)
  with assms have f: "failed_response (fetch e (GET (override_url base)))"
    by (simp add: override_fails_def)
  show ?thesis
  proof (cases "fetch e (GET (override_url base))")
    case Rejects
    with Inr show ?thesis by (simp add: try_override_def)
  next
    case (Responds res)
    show ?thesis
    proof (cases "ok res")
      case False
      with Inr Responds show ?thesis by (simp add: try_override_def)
    next
      case True
      with f Responds have m: "malformed_body (json_body res)"
        by (simp add: failed_response_def)
      show ?thesis
      proof (cases "json_body res")
        case None
        with Inr Responds True show ?thesis by (simp add: try_override_def)
      next
        case (Some srv)
        with m apply_override_non_object[of srv c]
        have "apply_override c srv = Inl TypeError \<or> apply_override c srv = Inr c" by simp
        with Inr Responds True Some show ?thesis by (auto simp: try_override_def)
      qed
    qed
  qed
qed

lemma base_of_bundled_example: "base_of bundled_example = Inr ''http://127.0.0.1:8000''"
  by (simp add: base_of_def bundled_example_def own_prop_def js_or_def strip_trailing_slashes_def)

subsection \<open>Configuration Resolver\<close>

text \<open>
  C6. When the override request fails (the fetch rejects, the status is not 2xx, the body
  is not JSON or is no JSON object) or cannot be built, \<open>loadConfig\<close> returns exactly
  the bundled configuration; and \<open>loadConfig\<close> rejects exactly when nothing is cached
  and the packaged config_ext.json cannot be read.
\<close>

theorem loadConfig_failed_override_keeps_defaults:
  "(CFG st = None \<and> bundled e = Some c \<and> override_fails e c
      \<longrightarrow> fst (loadConfig e st) = Inr c \<and> CFG (snd (loadConfig e st)) = Some c)
   \<and> (isl (fst (loadConfig e st)) \<longleftrightarrow> CFG st = None \<and> bundled e = None)"
proof (rule conjI)
  show "CFG st = None \<and> bundled e = Some c \<and> override_fails e c
      \<longrightarrow> fst (loadConfig e st) = Inr c \<and> CFG (snd (loadConfig e st)) = Some c"
    by (simp add: loadConfig_fresh try_override_fails)
next
  show "isl (fst (loadConfig e st)) \<longleftrightarrow> CFG st = None \<and> bundled e = None"
  proof (cases "CFG st")
    case (Some c)
    then show ?thesis by (simp add: loadConfig_cached)
  next
    case None
    then show ?thesis
      by (cases "bundled e") (simp_all add: loadConfig_unreadable loadConfig_fresh)
  qed
qed

theorem loadConfig_failed_override_keeps_defaults_witness:
  "fst (loadConfig (env_example (\<lambda>rq. Rejects)) fresh) = Inr bundled_example
   \<and> fst (loadConfig (env_example (\<lambda>rq. Responds \<lparr>status = 500, statusText = ''Internal Server Error'', json_body = Some (JObj [(''token'', JStr ''zzz'')])\<rparr>)) fresh) = Inr bundled_example
   \<and> fst (loadConfig (env_example (\<lambda>rq. Responds \<lparr>status = 200, statusText = ''OK'', json_body = None\<rparr>)) fresh) = Inr bundled_example
   \<and> isl (fst (loadConfig ((env_example (\<lambda>rq. Rejects))\<lparr>bundled := None\<rparr>) fresh))"
  using loadConfig_failed_override_keeps_defaults
          [of fresh "env_example (\<lambda>rq. Rejects)" bundled_example]
        loadConfig_failed_override_keeps_defaults
          [of fresh "env_example (\<lambda>rq. Responds \<lparr>status = 500, statusText = ''Internal Server Error'', json_body = Some (JObj [(''token'', JStr ''zzz'')])\<rparr>)" bundled_example]
        loadConfig_failed_override_keeps_defaults
          [of fresh "env_example (\<lambda>rq. Responds \<lparr>status = 200, statusText = ''OK'', json_body = None\<rparr>)" bundled_example]
        loadConfig_failed_override_keeps_defaults
          [of fresh "(env_example (\<lambda>rq. Rejects))\<lparr>bundled := None\<rparr>" c]
  by (simp add: fresh_def env_example_def override_fails_def base_of_bundled_example
        failed_response_def ok_def malformed_body_def)

lemma try_override_ok:
  assumes "base_of c = Inr base" "fetch e (GET (override_url base)) = Responds res" "ok res"
    "json_body res = Some (JObj srv)"
  shows "map_of (fst (try_override e c)) k =
           (if k = ''token'' \<and> truthy (own_prop srv ''token'') then Some (own_prop srv ''token'')
            else if k = ''server_url'' \<and> truthy (own_prop srv ''server_url'')
              then Some (own_prop srv ''server_url'')
            else map_of c k)"
  using assms
  by (simp add: try_override_def apply_override_obj Let_def map_of_set_prop)

text \<open>
  C5. From a fresh context whose bundled configuration is readable and whose override
  request is answered with a 2xx status and a JSON object, \<open>loadConfig\<close> returns the
  bundled object with \<open>server_url\<close> and \<open>token\<close> replaced by the values of the response
  that are truthy (for strings: present and not empty), and every other field as bundled.
\<close>

theorem loadConfig_override_frame:
  assumes "CFG st = None" "bundled e = Some c" "base_of c = Inr base"
    and "fetch e (GET (override_url base)) = Responds res" "ok res"
    and "json_body res = Some (JObj srv)"
  shows "\<exists>c'. fst (loadConfig e st) = Inr c' \<and> CFG (snd (loadConfig e st)) = Some c' \<and>
           (\<forall>k. map_of c' k =
             (if k = ''server_url'' \<and> truthy (own_prop srv ''server_url'')
                then Some (own_prop srv ''server_url'')
              else if k = ''token'' \<and> truthy (own_prop srv ''token'')
                then Some (own_prop srv ''token'')
              else map_of c k))"
  using assms by (auto simp: loadConfig_fresh try_override_ok)

theorem loadConfig_override_frame_witness:
  "\<exists>c'. fst (loadConfig (env_example (\<lambda>rq. Responds override_scenario)) fresh) = Inr c'
       \<and> own_prop c' ''server_url'' = JStr ''https://x.test''
       \<and> own_prop c' ''token'' = JStr ''abc''
       \<and> own_prop c' ''api_prefix'' = own_prop bundled_example ''api_prefix''
       \<and> own_prop c' ''api_prefix'' = JStr ''/v2''"
proof -
  have h1: "CFG fresh = None" by (simp add: fresh_def)
  have h2: "bundled (env_example (\<lambda>rq. Responds override_scenario)) = Some bundled_example"
    by (simp add: env_example_def)
  have h4: "fetch (env_example (\<lambda>rq. Responds override_scenario))
              (GET (override_url ''http://127.0.0.1:8000'')) = Responds override_scenario"
    by (simp add: env_example_def)
  have h5: "ok override_scenario" by (simp add: ok_def override_scenario_def)
  have h6: "json_body override_scenario =
      Some (JObj [(''server_url'', JStr ''https://x.test''), (''token'', JStr ''abc''),
                  (''api_prefix'', JStr ''/other'')])"
    by (simp add: override_scenario_def)
  from loadConfig_override_frame [OF h1 h2 base_of_bundled_example h4 h5 h6]
  obtain c' where c: "fst (loadConfig (env_example (\<lambda>rq. Responds override_scenario)) fresh) = Inr c'"
    and m: "\<And>k. map_of c' k =
             (if k = ''server_url'' \<and> truthy (own_prop [(''server_url'', JStr ''https://x.test''), (''token'', JStr ''abc''),
                  (''api_prefix'', JStr ''/other'')] ''server_url'')
                then Some (own_prop [(''server_url'', JStr ''https://x.test''), (''token'', JStr ''abc''),
                  (''api_prefix'', JStr ''/other'')] ''server_url'')
              else if k = ''token'' \<and> truthy (own_prop [(''server_url'', JStr ''https://x.test''), (''token'', JStr ''abc''),
                  (''api_prefix'', JStr ''/other'')] ''token'')
                then Some (own_prop [(''server_url'', JStr ''https://x.test''), (''token'', JStr ''abc''),
                  (''api_prefix'', JStr ''/other'')] ''token'')
              else map_of bundled_example k)"
    by blast
  have "own_prop c' ''server_url'' = JStr ''https://x.test''"
    "own_prop c' ''token'' = JStr ''abc''"
    "own_prop c' ''api_prefix'' = own_prop bundled_example ''api_prefix''"
    "own_prop c' ''api_prefix'' = JStr ''/v2''"
    by (simp_all add: own_prop_def m bundled_example_def)
  with c show ?thesis by blast
qed

text \<open>
  C3 (amended). From a fresh context \<open>loadConfig\<close> issues two requests: the packaged
  config_ext.json, then \<open>GET {base}/api/ext/config\<close>, where \<open>base\<close> is the bundled
  \<open>server_url\<close> without its trailing slashes and \<open>/api\<close> is fixed, whatever
  \<open>api_prefix\<close> is configured. Whatever the answer, no field other than \<open>server_url\<close>
  and \<open>token\<close> differs from the bundled configuration afterwards.
\<close>

theorem loadConfig_override_request:
  assumes "CFG st = None" "bundled e = Some c" "base_of c = Inr base"
  shows "requests (snd (loadConfig e st)) =
           requests st @ [GET (getURL e ''config_ext.json''), GET (base @ ''/api/ext/config'')]
         \<and> (\<exists>c'. fst (loadConfig e st) = Inr c' \<and>
               (\<forall>k. k \<noteq> ''server_url'' \<and> k \<noteq> ''token'' \<longrightarrow> map_of c' k = map_of c k))"
  using assms
  by (simp add: loadConfig_fresh try_override_requests try_override_frame override_url_def)

lemmas eval_defs =
  fresh_def env_example_def bundled_example_def loadConfig_def issue_def try_override_def
  base_of_def own_prop_def js_or_def strip_trailing_slashes_def GET_def getURL_def
  override_url_def ok_def Let_def

theorem loadConfig_override_request_witness:
  "requests (snd (loadConfig (env_example (\<lambda>rq. Rejects)) fresh)) =
     [GET ''chrome-extension://mvideodk/config_ext.json'',
      GET ''http://127.0.0.1:8000/api/ext/config'']"
proof -
  have h1: "CFG fresh = None" by (simp add: fresh_def)
  have h2: "bundled (env_example (\<lambda>rq. Rejects)) = Some bundled_example"
    by (simp add: env_example_def)
  from loadConfig_override_request [OF h1 h2 base_of_bundled_example]
  show ?thesis by (simp add: fresh_def env_example_def getURL_def)
qed

text \<open>
  With \<open>api_prefix\<close> set to \<open>/v2\<close>, the override request still goes to
  \<open>/api/ext/config\<close>, not to \<open>/v2/ext/config\<close>.
\<close>

theorem override_url_api_prefix_counterexample:
  "own_prop bundled_example ''api_prefix'' = JStr ''/v2''
   \<and> requests (snd (loadConfig (env_example (\<lambda>rq. Rejects)) fresh)) =
       [GET ''chrome-extension://mvideodk/config_ext.json'',
        GET ''http://127.0.0.1:8000/api/ext/config'']
   \<and> GET (''http://127.0.0.1:8000'' @ ''/v2'' @ ''/ext/config'')
       \<notin> set (requests (snd (loadConfig (env_example (\<lambda>rq. Rejects)) fresh)))"
  by (simp add: eval_defs)

lemma loadConfig_effects:
  "requests (snd (loadConfig e st)) = requests st @ issued st (snd (loadConfig e st))
   \<and> (\<forall>rq \<in> set (issued st (snd (loadConfig e st))). req_method rq = ''GET'')
   \<and> notifications (snd (loadConfig e st)) = notifications st
   \<and> (CFG st \<noteq> None \<longrightarrow> snd (loadConfig e st) = st)"
proof (cases "CFG st")
  case (Some c)
  then show ?thesis by (simp add: loadConfig_cached issued_def)
next
  case None
  show ?thesis
  proof (cases "bundled e")
    case None
    with \<open>CFG st = None\<close> show ?thesis
      by (simp add: loadConfig_unreadable issued_def issue_def GET_def)
  next
    case (Some c)
    with \<open>CFG st = None\<close> show ?thesis
      by (auto simp: loadConfig_fresh issued_def try_override_requests GET_def split: sum.splits)
  qed
qed

lemma getServerInfo_state: "snd (getServerInfo e st) = snd (loadConfig e st)"
  by (auto simp: getServerInfo_def split: prod.splits sum.splits)

lemma getServerInfo_result:
  "fst (getServerInfo e st) =
     (case fst (loadConfig e st) of
        Inl err \<Rightarrow> Inl err
      | Inr cfg \<Rightarrow>
          (case base_of cfg of
             Inl err \<Rightarrow> Inl err
           | Inr base \<Rightarrow>
               Inr \<lparr>si_base = base,
                    si_apiPrefix = js_or (own_prop cfg ''api_prefix'') (JStr ''/api''),
                    si_token = js_or (own_prop cfg ''token'') (JStr [])\<rparr>))"
  by (auto simp: getServerInfo_def split: prod.splits sum.splits)

lemma sendDownload_unfold:
  "sendDownload e url modo st =
     (case fst (getServerInfo e st) of
        Inl err \<Rightarrow> (Inl err, snd (loadConfig e st))
      | Inr si \<Rightarrow>
          if si_base si = [] \<or> \<not> truthy (si_token si) then
            (Inr (), notify e ''Error'' (JStr msg_missing_config) (snd (loadConfig e st)))
          else
            (case fetch e (queue_request si url modo) of
               Rejects \<Rightarrow> (Inr (), notify e title_connection (JStr msg_unreachable)
                                     (issue (queue_request si url modo) (snd (loadConfig e st))))
             | Responds res \<Rightarrow>
                 if \<not> ok res then
                   (Inr (), notify e ''Error al enviar URL'' (error_message res)
                              (issue (queue_request si url modo) (snd (loadConfig e st))))
                 else (Inr (), notify e ''MVideoDk'' (JStr msg_queued)
                                 (issue (queue_request si url modo) (snd (loadConfig e st))))))"
proof -
  obtain r st1 where g: "getServerInfo e st = (r, st1)" by (cases "getServerInfo e st")
  then have "st1 = snd (loadConfig e st)" using getServerInfo_state[of e st] by simp
  with g show ?thesis
    by (simp add: sendDownload_def Let_def split: sum.splits)
qed

lemma requests_notify [simp]: "requests (notify e t m st) = requests st"
  by (simp add: notify_def)

lemma requests_issue [simp]: "requests (issue rq st) = requests st @ [rq]"
  by (simp add: issue_def)

lemma notifications_issue [simp]: "notifications (issue rq st) = notifications st"
  by (simp add: issue_def)

lemma notifications_notify:
  "notifications (notify e t m st) = notifications st @ (if notifications_api e then [(t, m)] else [])"
  by (simp add: notify_def)


lemma sendDownload_requests:
  "requests (snd (sendDownload e url modo st)) =
     requests (snd (loadConfig e st)) @
       (case fst (getServerInfo e st) of
          Inl err \<Rightarrow> []
        | Inr si \<Rightarrow> if si_base si = [] \<or> \<not> truthy (si_token si) then []
                      else [queue_request si url modo])"
  by (simp add: sendDownload_unfold split: sum.splits fetch_result.splits)

text \<open>
  C2 (amended). When the effective configuration has an empty base URL or a falsy token,
  \<open>sendDownload\<close> returns nothing, raises the notification "Error" with the
  missing-configuration text, and issues no request of its own: the requests of the call
  are those of \<open>loadConfig\<close> (none when the configuration is cached, otherwise
  config_ext.json and the override GET), and none of them is a POST.
\<close>

theorem sendDownload_misconfigured:
  assumes "fst (loadConfig e st) = Inr cfg" "base_of cfg = Inr base"
    and "base = [] \<or> \<not> truthy (own_prop cfg ''token'')"
  shows "fst (sendDownload e url modo st) = Inr ()
    \<and> notifications (snd (sendDownload e url modo st)) =
        notifications st @ (if notifications_api e then [(''Error'', JStr msg_missing_config)] else [])
    \<and> requests (snd (sendDownload e url modo st)) = requests (snd (loadConfig e st))
    \<and> (\<forall>rq \<in> set (issued st (snd (sendDownload e url modo st))). req_method rq = ''GET'')
    \<and> (CFG st \<noteq> None \<longrightarrow> requests (snd (sendDownload e url modo st)) = requests st)"
proof -
  let ?si = "\<lparr>si_base = base,
              si_apiPrefix = js_or (own_prop cfg ''api_prefix'') (JStr ''/api''),
              si_token = js_or (own_prop cfg ''token'') (JStr [])\<rparr>"
  have g: "fst (getServerInfo e st) = Inr ?si"
    using assms(1,2) by (simp add: getServerInfo_result)
  have m: "si_base ?si = [] \<or> \<not> truthy (si_token ?si)"
    using assms(3) by (auto simp: js_or_def)
  have s: "sendDownload e url modo st =
      (Inr (), notify e ''Error'' (JStr msg_missing_config) (snd (loadConfig e st)))"
    using g m by (simp add: sendDownload_unfold)
  have r: "requests (snd (sendDownload e url modo st)) = requests (snd (loadConfig e st))"
    by (simp add: s)
  have i: "issued st (snd (sendDownload e url modo st)) = issued st (snd (loadConfig e st))"
    by (simp add: issued_def r)
  have n: "notifications (snd (sendDownload e url modo st)) =
      notifications st @ (if notifications_api e then [(''Error'', JStr msg_missing_config)] else [])"
    using loadConfig_effects[of e st] by (simp add: s notifications_notify)
  have p: "\<forall>rq \<in> set (issued st (snd (sendDownload e url modo st))). req_method rq = ''GET''"
    using loadConfig_effects[of e st] unfolding i by blast
  have c: "CFG st \<noteq> None \<longrightarrow> requests (snd (sendDownload e url modo st)) = requests st"
    using loadConfig_effects[of e st] unfolding r by auto
  from s have f: "fst (sendDownload e url modo st) = Inr ()" by simp
  from f n r p c show ?thesis by blast
qed

lemmas client_defs =
  sendDownload_def getServerInfo_def notify_def queue_request_def
  error_message_def member_def msg_missing_config_def
  msg_queued_def title_connection_def msg_unreachable_def issued_def server_def

theorem sendDownload_misconfigured_witness:
  "fst (sendDownload ((env_example (\<lambda>rq. Rejects))\<lparr>bundled := Some bundled_no_token\<rparr>)
       ''https://example.org/v'' ''video'' (fresh\<lparr>CFG := Some bundled_no_token\<rparr>)) = Inr ()
   \<and> notifications (snd (sendDownload ((env_example (\<lambda>rq. Rejects))\<lparr>bundled := Some bundled_no_token\<rparr>)
       ''https://example.org/v'' ''video'' (fresh\<lparr>CFG := Some bundled_no_token\<rparr>)))
        = [(''Error'', JStr msg_missing_config)]
   \<and> requests (snd (sendDownload ((env_example (\<lambda>rq. Rejects))\<lparr>bundled := Some bundled_no_token\<rparr>)
       ''https://example.org/v'' ''video'' (fresh\<lparr>CFG := Some bundled_no_token\<rparr>))) = []"
proof -
  let ?e = "(env_example (\<lambda>rq. Rejects))\<lparr>bundled := Some bundled_no_token\<rparr>"
  let ?st = "fresh\<lparr>CFG := Some bundled_no_token\<rparr>"
  have h1: "fst (loadConfig ?e ?st) = Inr bundled_no_token"
    by (simp add: loadConfig_def)
  have h2: "base_of bundled_no_token = Inr ''http://127.0.0.1:8000''"
    by (simp add: base_of_def bundled_no_token_def own_prop_def js_or_def strip_trailing_slashes_def)
  have h3: "''http://127.0.0.1:8000'' = [] \<or> \<not> truthy (own_prop bundled_no_token ''token'')"
    by (simp add: bundled_no_token_def own_prop_def)
  from sendDownload_misconfigured [OF h1 h2 h3, of "''https://example.org/v''" "''video''"]
  show ?thesis
    by (simp add: fresh_def env_example_def loadConfig_def)
qed

text \<open>
  The first submission of a worker whose token is empty: the override request goes out
  to the server before the missing token is noticed.
\<close>

theorem sendDownload_misconfigured_network_counterexample:
  "own_prop bundled_no_token ''token'' = JStr []
   \<and> issued fresh (snd (sendDownload ((env_example (\<lambda>rq. Rejects))\<lparr>bundled := Some bundled_no_token\<rparr>)
                           ''https://example.org/v'' ''video'' fresh))
     = [GET ''chrome-extension://mvideodk/config_ext.json'',
        GET ''http://127.0.0.1:8000/api/ext/config'']"
  by (simp add: eval_defs client_defs bundled_no_token_def)

lemma sendDownload_issued:
  "issued st (snd (sendDownload e url modo st)) =
     issued st (snd (loadConfig e st)) @
       (case fst (getServerInfo e st) of
          Inl err \<Rightarrow> []
        | Inr si \<Rightarrow> if si_base si = [] \<or> \<not> truthy (si_token si) then []
                      else [queue_request si url modo])"
proof -
  obtain xs where xs: "requests (snd (loadConfig e st)) = requests st @ xs"
    using loadConfig_effects[of e st] by blast
  have "issued st (snd (loadConfig e st)) = xs"
    by (simp add: issued_def xs)
  moreover have "issued st (snd (sendDownload e url modo st)) =
     xs @ (case fst (getServerInfo e st) of
          Inl err \<Rightarrow> []
        | Inr si \<Rightarrow> if si_base si = [] \<or> \<not> truthy (si_token si) then []
                      else [queue_request si url modo])"
    by (simp add: issued_def sendDownload_requests xs)
  ultimately show ?thesis by simp
qed

lemma sendDownload_post:
  assumes "rq \<in> set (issued st (snd (sendDownload e url modo st)))" "req_method rq = ''POST''"
  shows "\<exists>si. fst (getServerInfo e st) = Inr si \<and> si_base si \<noteq> [] \<and> truthy (si_token si)
            \<and> rq = queue_request si url modo"
proof -
  have n: "rq \<notin> set (issued st (snd (loadConfig e st)))"
    using loadConfig_effects[of e st] assms(2) by auto
  show ?thesis
  proof (cases "fst (getServerInfo e st)")
    case (Inl err)
    with assms(1) n show ?thesis by (simp add: sendDownload_issued)
  next
    case (Inr si)
    with assms(1) n show ?thesis
      by (simp add: sendDownload_issued split: if_splits)
  qed
qed

lemma sendDownload_rejected:
  assumes "fst (getServerInfo e st) = Inr si" "si_base si \<noteq> []" "truthy (si_token si)"
    and "fetch e (queue_request si url modo) = Responds res" "\<not> ok res"
  shows "sendDownload e url modo st =
     (Inr (), notify e ''Error al enviar URL'' (error_message res)
                (issue (queue_request si url modo) (snd (loadConfig e st))))"
  using assms by (simp add: sendDownload_unfold)

lemma modeUpper_values:
  "modeUpper [] = ''VIDEO''" "modeUpper ''video'' = ''VIDEO''" "modeUpper ''playlist'' = ''PLAYLIST''"
  by (simp_all add: modeUpper_def toUpperCase_def upper_char_def)


lemma mode_of_queue_request: "mode_of (queue_request si url modo) = JStr (modeUpper modo)"
  by (simp add: queue_request_def mode_of_def member_def own_prop_def)





lemma sendDownload_settles:
  "fst (sendDownload e url modo st) =
     (case fst (getServerInfo e st) of Inl err \<Rightarrow> Inl err | Inr si \<Rightarrow> Inr ())"
  by (simp add: sendDownload_unfold split: sum.splits fetch_result.splits)

lemma onMessage_submits:
  assumes "msg_type msg = ''DIRECT_DOWNLOAD''" "finalUrl msg sndr \<noteq> []"
    and "msg_fromFloat msg = Some True \<or> strict_url (finalUrl msg sndr)"
  shows "onMessage e msg sndr st =
     (case fst (sendDownload e (finalUrl msg sndr) (modo_or_video msg) st) of
        Inl err \<Rightarrow> None
      | Inr u \<Rightarrow> Some \<lparr>rp_ok = True, rp_error = None\<rparr>,
      snd (sendDownload e (finalUrl msg sndr) (modo_or_video msg) st))"
  using assms
  by (cases "sendDownload e (finalUrl msg sndr) (modo_or_video msg) st")
     (auto simp: onMessage_def Let_def split: sum.splits)

text \<open>
  C1 (amended). For every DIRECT_DOWNLOAD message that passes the URL checks, the worker
  replies \<open>{ok: true}\<close> once \<open>sendDownload\<close> has settled, whatever the outcome of the
  submission was (it never replies when the configuration cannot be resolved); the
  outcome itself is only shown as a notification. In particular a queue POST answered
  with a status that is not 2xx still gives the reply \<open>{ok: true}\<close>, and the notification
  "Error al enviar URL" with the message of the answer.
\<close>

theorem onMessage_reply_ok_whatever_outcome:
  assumes "msg_type msg = ''DIRECT_DOWNLOAD''" "finalUrl msg sndr \<noteq> []"
    and "msg_fromFloat msg = Some True \<or> strict_url (finalUrl msg sndr)"
  shows "fst (onMessage e msg sndr st) =
           (case fst (getServerInfo e st) of
              Inl err \<Rightarrow> None
            | Inr si \<Rightarrow> Some \<lparr>rp_ok = True, rp_error = None\<rparr>)
    \<and> snd (onMessage e msg sndr st) = snd (sendDownload e (finalUrl msg sndr) (modo_or_video msg) st)
    \<and> (\<forall>si res. fst (getServerInfo e st) = Inr si \<and> si_base si \<noteq> [] \<and> truthy (si_token si)
          \<and> fetch e (queue_request si (finalUrl msg sndr) (modo_or_video msg)) = Responds res
          \<and> \<not> ok res \<longrightarrow>
          fst (onMessage e msg sndr st) = Some \<lparr>rp_ok = True, rp_error = None\<rparr>
          \<and> notifications (snd (onMessage e msg sndr st)) =
              notifications st @
                (if notifications_api e then [(''Error al enviar URL'', error_message res)] else []))"
proof -
  note o = onMessage_submits[OF assms, of e st]
  have a: "fst (onMessage e msg sndr st) =
           (case fst (getServerInfo e st) of
              Inl err \<Rightarrow> None
            | Inr si \<Rightarrow> Some \<lparr>rp_ok = True, rp_error = None\<rparr>)"
    by (simp add: o sendDownload_settles split: sum.splits)
  have b: "snd (onMessage e msg sndr st) =
      snd (sendDownload e (finalUrl msg sndr) (modo_or_video msg) st)"
    by (simp add: o)
  have c: "\<forall>si res. fst (getServerInfo e st) = Inr si \<and> si_base si \<noteq> [] \<and> truthy (si_token si)
          \<and> fetch e (queue_request si (finalUrl msg sndr) (modo_or_video msg)) = Responds res
          \<and> \<not> ok res \<longrightarrow>
          fst (onMessage e msg sndr st) = Some \<lparr>rp_ok = True, rp_error = None\<rparr>
          \<and> notifications (snd (onMessage e msg sndr st)) =
              notifications st @
                (if notifications_api e then [(''Error al enviar URL'', error_message res)] else [])"
  proof (intro allI impI)
    fix si res
    assume h: "fst (getServerInfo e st) = Inr si \<and> si_base si \<noteq> [] \<and> truthy (si_token si)
          \<and> fetch e (queue_request si (finalUrl msg sndr) (modo_or_video msg)) = Responds res
          \<and> \<not> ok res"
    then have s: "sendDownload e (finalUrl msg sndr) (modo_or_video msg) st =
        (Inr (), notify e ''Error al enviar URL'' (error_message res)
                (issue (queue_request si (finalUrl msg sndr) (modo_or_video msg))
                   (snd (loadConfig e st))))"
      by (simp add: sendDownload_rejected)
    have n: "notifications (snd (loadConfig e st)) = notifications st"
      using loadConfig_effects[of e st] by blast
    from h have "fst (onMessage e msg sndr st) = Some \<lparr>rp_ok = True, rp_error = None\<rparr>"
      by (simp add: a)
    moreover have "notifications (snd (onMessage e msg sndr st)) =
              notifications st @
                (if notifications_api e then [(''Error al enviar URL'', error_message res)] else [])"
      unfolding b s by (simp add: notifications_notify n)
    ultimately show "fst (onMessage e msg sndr st) = Some \<lparr>rp_ok = True, rp_error = None\<rparr>
          \<and> notifications (snd (onMessage e msg sndr st)) =
              notifications st @
                (if notifications_api e then [(''Error al enviar URL'', error_message res)] else [])"
      by blast
  qed
  from a b c show ?thesis by blast
qed

lemmas router_defs =
  onMessage_def finalUrl_def modo_or_video_def direct_download_def strict_url_def
  from_popup_def rejected_403_def accepted_200_def err_invalid_url_def err_no_url_def

lemma onMessage_example_403:
  "onMessage (env_example (server rejected_403))
      (direct_download ''https://example.org/list'' ''playlist'') from_popup fresh
   = (Some \<lparr>rp_ok = True, rp_error = None\<rparr>,
      \<lparr>CFG = Some bundled_example,
       requests = [GET ''chrome-extension://mvideodk/config_ext.json'',
                   GET ''http://127.0.0.1:8000/api/ext/config'', queue_example],
       notifications = [(''Error al enviar URL'', JStr ''bad token'')]\<rparr>)"
  by (simp add: eval_defs client_defs router_defs queue_example_def modeUpper_values)

theorem onMessage_reply_ok_whatever_outcome_witness:
  "fst (onMessage (env_example (server rejected_403))
      (direct_download ''https://example.org/list'' ''playlist'') from_popup fresh)
     = Some \<lparr>rp_ok = True, rp_error = None\<rparr>
   \<and> fst (onMessage (env_example (server accepted_200))
      (direct_download ''https://example.org/list'' ''playlist'') from_popup fresh)
     = Some \<lparr>rp_ok = True, rp_error = None\<rparr>"
proof -
  let ?m = "direct_download ''https://example.org/list'' ''playlist''"
  have h1: "msg_type ?m = ''DIRECT_DOWNLOAD''" by (simp add: direct_download_def)
  have h2: "finalUrl ?m from_popup \<noteq> []" by (simp add: router_defs)
  have h3: "msg_fromFloat ?m = Some True \<or> strict_url (finalUrl ?m from_popup)"
    by (simp add: router_defs)
  have g: "fst (getServerInfo (env_example (server r)) fresh) =
      Inr \<lparr>si_base = ''http://127.0.0.1:8000'', si_apiPrefix = JStr ''/v2'', si_token = JStr ''t0''\<rparr>"
    for r
    by (simp add: eval_defs client_defs split: fetch_result.splits)
  from onMessage_reply_ok_whatever_outcome [OF h1 h2 h3, of "env_example (server rejected_403)" fresh]
       onMessage_reply_ok_whatever_outcome [OF h1 h2 h3, of "env_example (server accepted_200)" fresh]
  show ?thesis by (simp add: g)
qed

text \<open>
  The spec's scenario: the queue answers 403 with \<open>{"detail": "bad token"}\<close>. The reply to
  the popup is \<open>{ok: true}\<close>; the rejection is in the notification only.
\<close>

theorem onMessage_rejected_reply_counterexample:
  "fst (onMessage (env_example (server rejected_403))
      (direct_download ''https://example.org/list'' ''playlist'') from_popup fresh)
     = Some \<lparr>rp_ok = True, rp_error = None\<rparr>
   \<and> notifications (snd (onMessage (env_example (server rejected_403))
      (direct_download ''https://example.org/list'' ''playlist'') from_popup fresh))
      = [(''Error al enviar URL'', JStr ''bad token'')]"
  by (simp add: onMessage_example_403)

lemma finalUrl_fromFloat [simp]: "finalUrl (msg\<lparr>msg_fromFloat := f\<rparr>) sndr = finalUrl msg sndr"
  by (simp add: finalUrl_def)

lemma modo_or_video_fromFloat [simp]: "modo_or_video (msg\<lparr>msg_fromFloat := f\<rparr>) = modo_or_video msg"
  by (simp add: modo_or_video_def)

text \<open>
  C4. A DIRECT_DOWNLOAD message with a URL (not empty) that does not start with
  \<open>http://\<close> or \<open>https://\<close>: unless it carries \<open>fromFloat: true\<close>, the worker replies
  \<open>{ok: false}\<close> with the invalid-URL error and does nothing else (no request, no
  notification, no configuration load). The same message with \<open>fromFloat: true\<close> is
  handed to \<open>sendDownload\<close> with that URL, is not answered with the invalid-URL error,
  and with a usable configuration the POST for that URL is issued.
\<close>

theorem onMessage_strict_url_check:
  assumes "msg_type msg = ''DIRECT_DOWNLOAD''" "finalUrl msg sndr \<noteq> []"
    and "\<not> strict_url (finalUrl msg sndr)"
  shows "(msg_fromFloat msg \<noteq> Some True \<longrightarrow>
            onMessage e msg sndr st = (Some \<lparr>rp_ok = False, rp_error = Some err_invalid_url\<rparr>, st))
    \<and> snd (onMessage e (msg\<lparr>msg_fromFloat := Some True\<rparr>) sndr st) =
          snd (sendDownload e (finalUrl msg sndr) (modo_or_video msg) st)
    \<and> fst (onMessage e (msg\<lparr>msg_fromFloat := Some True\<rparr>) sndr st) \<noteq>
          Some \<lparr>rp_ok = False, rp_error = Some err_invalid_url\<rparr>
    \<and> (\<forall>si. fst (getServerInfo e st) = Inr si \<and> si_base si \<noteq> [] \<and> truthy (si_token si) \<longrightarrow>
          issued st (snd (onMessage e (msg\<lparr>msg_fromFloat := Some True\<rparr>) sndr st)) =
            issued st (snd (loadConfig e st)) @
              [queue_request si (finalUrl msg sndr) (modo_or_video msg)])"
proof -
  let ?m = "msg\<lparr>msg_fromFloat := Some True\<rparr>"
  have a: "msg_fromFloat msg \<noteq> Some True \<longrightarrow>
            onMessage e msg sndr st = (Some \<lparr>rp_ok = False, rp_error = Some err_invalid_url\<rparr>, st)"
    using assms by (simp add: onMessage_def Let_def)
  have o: "onMessage e ?m sndr st =
     (case fst (sendDownload e (finalUrl msg sndr) (modo_or_video msg) st) of
        Inl err \<Rightarrow> None
      | Inr u \<Rightarrow> Some \<lparr>rp_ok = True, rp_error = None\<rparr>,
      snd (sendDownload e (finalUrl msg sndr) (modo_or_video msg) st))"
    using onMessage_submits[of ?m sndr e st] assms(1,2) by simp
  have b: "snd (onMessage e ?m sndr st) =
          snd (sendDownload e (finalUrl msg sndr) (modo_or_video msg) st)"
    by (simp add: o)
  have c: "fst (onMessage e ?m sndr st) \<noteq> Some \<lparr>rp_ok = False, rp_error = Some err_invalid_url\<rparr>"
    by (simp add: o split: sum.splits)
  have d: "\<forall>si. fst (getServerInfo e st) = Inr si \<and> si_base si \<noteq> [] \<and> truthy (si_token si) \<longrightarrow>
          issued st (snd (onMessage e ?m sndr st)) =
            issued st (snd (loadConfig e st)) @
              [queue_request si (finalUrl msg sndr) (modo_or_video msg)]"
    unfolding b by (simp add: sendDownload_issued)
  from a b c d show ?thesis by blast
qed

theorem onMessage_strict_url_check_witness:
  "onMessage (env_example (server accepted_200)) (direct_download ''not-a-url'' ''video'')
       from_popup fresh
     = (Some \<lparr>rp_ok = False, rp_error = Some err_invalid_url\<rparr>, fresh)
   \<and> issued fresh (snd (onMessage (env_example (server accepted_200))
        ((direct_download ''not-a-url'' ''video'')\<lparr>msg_fromFloat := Some True\<rparr>) from_popup fresh))
     = [GET ''chrome-extension://mvideodk/config_ext.json'',
        GET ''http://127.0.0.1:8000/api/ext/config'',
        \<lparr>req_method = ''POST'', req_url = ''http://127.0.0.1:8000/v2/queue'',
         req_headers = [(''Authorization'', ''Bearer t0''), (''Content-Type'', ''application/json'')],
         req_body = Some (JObj [(''url'', JStr ''not-a-url''), (''source'', JStr ''EXT''),
                                (''mode'', JStr ''VIDEO'')])\<rparr>]"
proof -
  let ?m = "direct_download ''not-a-url'' ''video''"
  let ?e = "env_example (server accepted_200)"
  let ?si = "\<lparr>si_base = ''http://127.0.0.1:8000'', si_apiPrefix = JStr ''/v2'', si_token = JStr ''t0''\<rparr>"
  have h1: "msg_type ?m = ''DIRECT_DOWNLOAD''" by (simp add: direct_download_def)
  have h2: "finalUrl ?m from_popup \<noteq> []" by (simp add: router_defs)
  have h3: "\<not> strict_url (finalUrl ?m from_popup)" by (simp add: router_defs)
  have g: "fst (getServerInfo ?e fresh) = Inr ?si"
    by (simp add: eval_defs client_defs server_def split: fetch_result.splits)
  have l: "issued fresh (snd (loadConfig ?e fresh)) =
     [GET ''chrome-extension://mvideodk/config_ext.json'',
      GET ''http://127.0.0.1:8000/api/ext/config'']"
    by (simp add: eval_defs issued_def server_def)
  have q: "queue_request ?si (finalUrl ?m from_popup) (modo_or_video ?m) =
        \<lparr>req_method = ''POST'', req_url = ''http://127.0.0.1:8000/v2/queue'',
         req_headers = [(''Authorization'', ''Bearer t0''), (''Content-Type'', ''application/json'')],
         req_body = Some (JObj [(''url'', JStr ''not-a-url''), (''source'', JStr ''EXT''),
                                (''mode'', JStr ''VIDEO'')])\<rparr>"
    by (simp add: queue_request_def router_defs modeUpper_values)
  have f: "msg_fromFloat ?m \<noteq> Some True" by (simp add: direct_download_def)
  note t = onMessage_strict_url_check [OF h1 h2 h3, of ?e fresh]
  have a: "onMessage ?e ?m from_popup fresh =
      (Some \<lparr>rp_ok = False, rp_error = Some err_invalid_url\<rparr>, fresh)"
    by (rule t [THEN conjunct1, rule_format, OF f])
  have pre: "fst (getServerInfo ?e fresh) = Inr ?si \<and> si_base ?si \<noteq> [] \<and> truthy (si_token ?si)"
    using g by simp
  have "issued fresh (snd (onMessage ?e (?m\<lparr>msg_fromFloat := Some True\<rparr>) from_popup fresh)) =
      issued fresh (snd (loadConfig ?e fresh)) @
        [queue_request ?si (finalUrl ?m from_popup) (modo_or_video ?m)]"
    by (rule t [THEN conjunct2, THEN conjunct2, THEN conjunct2, rule_format, OF pre])
  then have b: "issued fresh (snd (onMessage ?e (?m\<lparr>msg_fromFloat := Some True\<rparr>) from_popup fresh)) =
     [GET ''chrome-extension://mvideodk/config_ext.json'',
      GET ''http://127.0.0.1:8000/api/ext/config'',
      \<lparr>req_method = ''POST'', req_url = ''http://127.0.0.1:8000/v2/queue'',
         req_headers = [(''Authorization'', ''Bearer t0''), (''Content-Type'', ''application/json'')],
         req_body = Some (JObj [(''url'', JStr ''not-a-url''), (''source'', JStr ''EXT''),
                                (''mode'', JStr ''VIDEO'')])\<rparr>]"
    by (simp only: l q append.simps)
  from a b show ?thesis by (rule conjI)
qed

lemma resetAfterSend_fields [simp]:
  "currentMode (resetAfterSend p) = ''video''" "urlInput (resetAfterSend p) = []"
  "modeSwitch (resetAfterSend p) = ''Modo: Video''"
  by (simp_all add: resetAfterSend_def)

text \<open>
  C7. Each of the three send handlers of the popup, once it has sent its message and the
  callback has run, leaves the mode at \<open>video\<close> and the URL field empty, whatever the
  worker replied or did: the callbacks do not look at the reply.
\<close>

theorem popup_reset_after_send:
  "(\<forall>r. currentMode (downloadBtn_done r p) = ''video'' \<and> urlInput (downloadBtn_done r p) = []
       \<and> currentMode (downloadCurrentBtn_done r p) = ''video''
       \<and> urlInput (downloadCurrentBtn_done r p) = []
       \<and> currentMode (downloadPlaylistBtn_done r p) = ''video''
       \<and> urlInput (downloadPlaylistBtn_done r p) = [])
   \<and> (input_or_tab p tab \<noteq> [] \<longrightarrow>
        currentMode (fst (downloadBtn_click e tab (p, w))) = ''video''
        \<and> urlInput (fst (downloadBtn_click e tab (p, w))) = []
        \<and> currentMode (fst (downloadPlaylistBtn_click e tab (p, w))) = ''video''
        \<and> urlInput (fst (downloadPlaylistBtn_click e tab (p, w))) = [])
   \<and> (tab \<noteq> None \<and> tab \<noteq> Some [] \<longrightarrow>
        currentMode (fst (downloadCurrentBtn_click e tab (p, w))) = ''video''
        \<and> urlInput (fst (downloadCurrentBtn_click e tab (p, w))) = [])"
proof (intro conjI allI impI)
  fix r
  show "currentMode (downloadBtn_done r p) = ''video''" "urlInput (downloadBtn_done r p) = []"
    by (simp_all add: downloadBtn_done_def)
  show "currentMode (downloadCurrentBtn_done r p) = ''video''"
    "urlInput (downloadCurrentBtn_done r p) = []"
    by (simp_all add: downloadCurrentBtn_done_def)
  show "currentMode (downloadPlaylistBtn_done r p) = ''video''"
    "urlInput (downloadPlaylistBtn_done r p) = []"
    by (simp_all add: downloadPlaylistBtn_done_def)
next
  assume "input_or_tab p tab \<noteq> []"
  then show "currentMode (fst (downloadBtn_click e tab (p, w))) = ''video''"
    "urlInput (fst (downloadBtn_click e tab (p, w))) = []"
    by (simp_all add: downloadBtn_click_def downloadBtn_done_def Let_def)
next
  assume "input_or_tab p tab \<noteq> []"
  then show "currentMode (fst (downloadPlaylistBtn_click e tab (p, w))) = ''video''"
    "urlInput (fst (downloadPlaylistBtn_click e tab (p, w))) = []"
    by (simp_all add: downloadPlaylistBtn_click_def downloadPlaylistBtn_done_def Let_def)
next
  assume "tab \<noteq> None \<and> tab \<noteq> Some []"
  then show "currentMode (fst (downloadCurrentBtn_click e tab (p, w))) = ''video''"
    "urlInput (fst (downloadCurrentBtn_click e tab (p, w))) = []"
    by (auto simp: downloadCurrentBtn_click_def downloadCurrentBtn_done_def Let_def)
qed

lemma input_or_tab_example: "input_or_tab popup_example None = ''https://example.org/list''"
  by (simp add: input_or_tab_def popup_example_def trim_def is_space_def)

theorem popup_reset_after_send_witness:
  "currentMode popup_example = ''playlist''
   \<and> currentMode (fst (downloadBtn_click (env_example (server rejected_403)) None
                          (popup_example, fresh))) = ''video''
   \<and> urlInput (fst (downloadBtn_click (env_example (server rejected_403)) None
                       (popup_example, fresh))) = []
   \<and> currentMode (fst (downloadBtn_click (env_example (server accepted_200)) None
                          (popup_example, fresh))) = ''video''
   \<and> urlInput (fst (downloadBtn_click (env_example (server accepted_200)) None
                       (popup_example, fresh))) = []
   \<and> currentMode (fst (downloadCurrentBtn_click (env_example (\<lambda>rq. Rejects))
                          (Some ''https://example.org/v'') (popup_example, fresh))) = ''video''"
proof -
  have h: "input_or_tab popup_example None \<noteq> []" by (simp add: input_or_tab_example)
  have k: "Some ''https://example.org/v'' \<noteq> None \<and> Some ''https://example.org/v'' \<noteq> Some []"
    by simp
  from popup_reset_after_send [of popup_example None "env_example (server rejected_403)" fresh]
       popup_reset_after_send [of popup_example None "env_example (server accepted_200)" fresh]
       popup_reset_after_send [of popup_example "Some ''https://example.org/v''"
                                  "env_example (\<lambda>rq. Rejects)" fresh]
       h k
  show ?thesis by (simp add: popup_example_def)
qed

text \<open>
  C8. A reader of the flag takes a missing key as disabled; what \<open>setFloatEnabled\<close> wrote
  is what \<open>getFloatEnabled\<close> reads; a page context started (on a document with a body)
  after \<open>true\<close> was written has the button, shown; one started after \<open>false\<close> was written
  has none; and after the popup's toggle the next page context has the button exactly
  when the toggle switched the flag on.
\<close>

theorem float_state_round_trip:
  "(items STORAGE_FLOAT = None \<longrightarrow>
      \<not> getFloatEnabled items \<and> btn (page_start items href body) = None
      \<and> \<not> floatEnabled (page_start items href body))
   \<and> getFloatEnabled (setFloatEnabled b items) = b
   \<and> btn (page_start (setFloatEnabled True items) href True)
       = Some \<lparr>display = ''block'', textContent = Arrow\<rparr>
   \<and> btn (page_start (setFloatEnabled False items) href body) = None
   \<and> (btn (page_start (fst (snd (toggleFloatBtn_click t (p, items)))) href True) \<noteq> None
        \<longleftrightarrow> \<not> popup_floatEnabled p)"
  by (simp add: getFloatEnabled_def setFloatEnabled_def STORAGE_FLOAT_def page_start_def
        addOrInit_def initFloatState_def createButton_def removeButton_def
        updateVisibility_def toggleFloatBtn_click_def Let_def)

theorem float_state_round_trip_witness:
  "\<not> getFloatEnabled Map.empty
   \<and> btn (page_start Map.empty ''https://example.org/'' True) = None
   \<and> btn (page_start (setFloatEnabled True Map.empty) ''https://example.org/'' True)
       = Some \<lparr>display = ''block'', textContent = Arrow\<rparr>
   \<and> btn (page_start (setFloatEnabled False (setFloatEnabled True Map.empty))
             ''https://example.org/'' True) = None"
  using float_state_round_trip [of Map.empty "''https://example.org/''" True True]
        float_state_round_trip [of "setFloatEnabled True Map.empty" "''https://example.org/''" True False]
  by simp

lemma issued_same [simp]: "issued st st = []"
  by (simp add: issued_def)

lemma btn_click_fields [simp]:
  "msg_type (btn_click pg) = ''DIRECT_DOWNLOAD''" "msg_modo (btn_click pg) = Some ''video''"
  "msg_fromFloat (btn_click pg) = Some True" "msg_url (btn_click pg) = Some (currentUrl pg)"
  by (simp_all add: btn_click_def)

text \<open>
  C10. The message of the floating button is always a DIRECT_DOWNLOAD with \<open>modo: "video"\<close>
  and \<open>fromFloat: true\<close> for the tracked URL of the page, and every POST the worker issues
  for it carries \<open>mode: "VIDEO"\<close>.
\<close>

theorem float_click_video_only:
  "msg_type (btn_click pg) = ''DIRECT_DOWNLOAD'' \<and> msg_modo (btn_click pg) = Some ''video''
   \<and> msg_fromFloat (btn_click pg) = Some True \<and> msg_url (btn_click pg) = Some (currentUrl pg)
   \<and> (\<forall>rq \<in> set (issued st (snd (onMessage e (btn_click pg) sndr st))).
         req_method rq = ''POST'' \<longrightarrow> mode_of rq = JStr ''VIDEO'')"
proof -
  have "mode_of rq = JStr ''VIDEO''"
    if a: "rq \<in> set (issued st (snd (onMessage e (btn_click pg) sndr st)))"
      and b: "req_method rq = ''POST''" for rq
  proof (cases "finalUrl (btn_click pg) sndr = []")
    case True
    then have "snd (onMessage e (btn_click pg) sndr st) = st"
      by (simp add: onMessage_def Let_def)
    with a show ?thesis by simp
  next
    case False
    have m: "modo_or_video (btn_click pg) = ''video''"
      by (simp add: modo_or_video_def)
    from False have "snd (onMessage e (btn_click pg) sndr st) =
        snd (sendDownload e (finalUrl (btn_click pg) sndr) ''video'' st)"
      using onMessage_submits[of "btn_click pg" sndr e st] by (simp add: m)
    with a have "rq \<in> set (issued st (snd (sendDownload e (finalUrl (btn_click pg) sndr) ''video'' st)))"
      by simp
    from sendDownload_post[OF this b] obtain si where
      "rq = queue_request si (finalUrl (btn_click pg) sndr) ''video''" by blast
    then show ?thesis by (simp add: mode_of_queue_request modeUpper_values)
  qed
  then show ?thesis by simp
qed

theorem float_click_video_only_witness:
  "queue_float_example \<in> set (issued fresh (snd (onMessage (env_example (server accepted_200))
       (btn_click page_example) \<lparr>tab_url = Some ''https://example.org/watch?v=1''\<rparr> fresh)))
   \<and> req_method queue_float_example = ''POST''
   \<and> mode_of queue_float_example = JStr ''VIDEO''"
proof -
  let ?w = "snd (onMessage (env_example (server accepted_200))
       (btn_click page_example) \<lparr>tab_url = Some ''https://example.org/watch?v=1''\<rparr> fresh)"
  have r: "requests ?w =
     [GET ''chrome-extension://mvideodk/config_ext.json'',
      GET ''http://127.0.0.1:8000/api/ext/config'', queue_float_example]"
    by (simp add: eval_defs client_defs router_defs btn_click_def page_example_def
          queue_float_example_def modeUpper_values)
  have h1: "queue_float_example \<in> set (issued fresh ?w)"
    unfolding issued_def r by (simp add: fresh_def)
  have h2: "req_method queue_float_example = ''POST''"
    by (simp add: queue_float_example_def)
  from float_click_video_only [of page_example fresh "env_example (server accepted_200)"
         "\<lparr>tab_url = Some ''https://example.org/watch?v=1''\<rparr>"] h1 h2
  have "mode_of queue_float_example = JStr ''VIDEO''" by blast
  with h1 h2 show ?thesis by blast
qed

end
